theory Spec2Isabelle
  imports Complex_Main
begin

section \<open>Python values shared by the modules\<close>

subsection \<open>Exceptions and their string rendering\<close>

text \<open>
  The exceptions that \<^verbatim>\<open>except Exception\<close> can catch. \<open>HTTPException\<close> is FastAPI's
  (status code, detail); \<open>TimeoutError\<close> is \<^verbatim>\<open>asyncio.TimeoutError()\<close>, raised without
  arguments; \<open>PyError\<close> stands for any other exception object, given by its class name and
  the text \<^verbatim>\<open>str(e)\<close> renders.
\<close>

datatype py_exception =
    HTTPException int string
  | TimeoutError
  | PyError string string

text \<open>A call either returns a value (\<open>Inr\<close>) or raises (\<open>Inl\<close>).\<close>

type_synonym 'a outcome = "py_exception + 'a"

definition digit_char :: "nat \<Rightarrow> char" where
  "digit_char d = ''0123456789'' ! d"

fun str_nat :: "nat \<Rightarrow> string" where
  "str_nat n = (if n < 10 then [digit_char n] else str_nat (n div 10) @ [digit_char (n mod 10)])"

declare str_nat.simps [simp del]

definition str_int :: "int \<Rightarrow> string" where
  "str_int i = (if i < 0 then CHR ''-'' # str_nat (nat (- i)) else str_nat (nat i))"

text \<open>
  \<^verbatim>\<open>str(e)\<close>. Starlette renders an \<open>HTTPException\<close> as
  \<^verbatim>\<open>f"{self.status_code}: {self.detail}"\<close>; an exception built without arguments renders
  as the empty string.
\<close>

fun str_exc :: "py_exception \<Rightarrow> string" where
  "str_exc (HTTPException status_code detail) = str_int status_code @ '': '' @ detail"
| "str_exc TimeoutError = []"
| "str_exc (PyError cls msg) = msg"

section \<open>The chat endpoint (app/main.py)\<close>

record Message =
  role :: string
  content :: string

record ChatRequest =
  messages :: "Message list"

text \<open>\<^verbatim>\<open>request.model_dump().get('messages')\<close>: one dict per message, in order.\<close>

type_synonym message_dict = "(string \<times> string) list"

definition model_dump_messages :: "ChatRequest \<Rightarrow> message_dict list" where
  "model_dump_messages request =
     map (\<lambda>m. [(''role'', role m), (''content'', content m)]) (messages request)"

text \<open>
  The body of the \<^verbatim>\<open>try\<close> block. \<open>enqueue_job\<close> is
  \<^verbatim>\<open>app.state.redis.enqueue_job('process_langchain_request', messages=...)\<close> and
  \<open>job_result job timeout\<close> is \<^verbatim>\<open>job.result(timeout=timeout)\<close>; both belong to the queue
  library and are parameters here. A returned \<open>None\<close> is Python's \<^verbatim>\<open>None\<close>.
\<close>

definition chat_body ::
  "(message_dict list \<Rightarrow> 'j outcome) \<Rightarrow> ('j \<Rightarrow> rat \<Rightarrow> 'r option outcome) \<Rightarrow> ChatRequest
     \<Rightarrow> (string \<times> 'r) list outcome" where
  "chat_body enqueue_job job_result request =
     (case enqueue_job (model_dump_messages request) of
        Inl e \<Rightarrow> Inl e
      | Inr job \<Rightarrow>
          (case job_result job 30 of
             Inl e \<Rightarrow> Inl e
           | Inr None \<Rightarrow> Inl (HTTPException 500 ''Processing timed out'')
           | Inr (Some result) \<Rightarrow> Inr [(''result'', result)]))"

text \<open>
  The handler: whatever the body raises is caught by \<^verbatim>\<open>except Exception as e\<close> and
  replaced by \<^verbatim>\<open>HTTPException(status_code=500, detail=str(e))\<close>.
\<close>

definition chat ::
  "(message_dict list \<Rightarrow> 'j outcome) \<Rightarrow> ('j \<Rightarrow> rat \<Rightarrow> 'r option outcome) \<Rightarrow> ChatRequest
     \<Rightarrow> (string \<times> 'r) list outcome" where
  "chat enqueue_job job_result request =
     (case chat_body enqueue_job job_result request of
        Inl e \<Rightarrow> Inl (HTTPException 500 (str_exc e))
      | Inr response \<Rightarrow> Inr response)"

subsection \<open>The job handle\<close>

text \<open>
  Modelled from the spec: the job handle's wait, which is the queue library's
  \<^verbatim>\<open>Job.result\<close> and is not part of the repository's sources. Section 4.4:
  "\<^verbatim>\<open>handle.wait(timeout)\<close> polls or blocks until status is terminal or timeout elapses;
  returns the result on succeeded, signals ExecutionFailed(error) on failed, signals
  Timeout on timed_out or on its own timeout elapsing".

  A job is seen through its handle as the time (seconds after the wait starts) at which it
  reaches a terminal state, if it ever does, and that state.
\<close>

datatype 'r terminal = Succeeded 'r | Failed py_exception | TimedOut

type_synonym 'r job_view = "(rat \<times> 'r terminal) option"

fun finished_within :: "rat \<Rightarrow> 'r job_view \<Rightarrow> bool" where
  "finished_within timeout None = False"
| "finished_within timeout (Some (t, st)) = (t \<le> timeout)"

fun handle_wait :: "'r job_view \<Rightarrow> rat \<Rightarrow> 'r outcome" where
  "handle_wait None timeout = Inl TimeoutError"
| "handle_wait (Some (t, st)) timeout =
     (if timeout < t then Inl TimeoutError
      else case st of
             Succeeded r \<Rightarrow> Inr r
           | Failed e \<Rightarrow> Inl e
           | TimedOut \<Rightarrow> Inl TimeoutError)"

section \<open>Configuration (app/core/config.py)\<close>


record Settings =
  GOOGLE_API_KEY :: string
  MODEL_NAME :: string
  OUTPUT_FOLDER :: string
  MAX_CONCURRENCY :: int
  MAX_OUTPUT_TOKENS :: int
  API_BASE_URL :: "string option"
  FASTAPI_KEY :: string
  MAX_TASK_RUNTIME :: int
  REDIS_HOST :: string
  REDIS_PORT :: int
  API_CONCURRENCY_LIMIT :: int

















section \<open>The worker (app/worker.py)\<close>

text \<open>The keyword arguments given to \<^verbatim>\<open>ChatGoogleGenerativeAI\<close>.\<close>

record llm_kwargs =
  model :: string
  api_key :: string
  temperature :: rat
  max_tokens :: int

definition llm_kwargs :: "Settings \<Rightarrow> llm_kwargs" where
  "llm_kwargs settings =
     \<lparr> model = MODEL_NAME settings,
       api_key = GOOGLE_API_KEY settings,
       temperature = 0,
       max_tokens = MAX_OUTPUT_TOKENS settings \<rparr>"

text \<open>
  \<^verbatim>\<open>process_langchain_request(ctx, messages)\<close>. The three calls into the language-model
  library are parameters: the constructor, \<^verbatim>\<open>convert_to_messages\<close>, and
  \<^verbatim>\<open>llm.ainvoke\<close>, which here yields \<^verbatim>\<open>response.content\<close>. The \<^verbatim>\<open>except\<close> branch logs
  and re-raises with a bare \<^verbatim>\<open>raise\<close>.
\<close>

definition process_langchain_request ::
  "Settings \<Rightarrow> (llm_kwargs \<Rightarrow> 'llm outcome) \<Rightarrow> (message_dict list \<Rightarrow> 'm outcome)
     \<Rightarrow> ('llm \<Rightarrow> 'm \<Rightarrow> 'c outcome) \<Rightarrow> message_dict list \<Rightarrow> 'c outcome" where
  "process_langchain_request settings ChatGoogleGenerativeAI convert_to_messages ainvoke msgs =
     (case ChatGoogleGenerativeAI (llm_kwargs settings) of
        Inl e \<Rightarrow> Inl e
      | Inr llm \<Rightarrow>
          (case convert_to_messages msgs of
             Inl e \<Rightarrow> Inl e
           | Inr converted \<Rightarrow>
               (case ainvoke llm converted of
                  Inl e \<Rightarrow> Inl e
                | Inr response_content \<Rightarrow> Inr response_content)))"

record RedisSettings =
  host :: string
  port :: int

record WorkerSettings =
  job_functions :: "string list"
  redis_settings :: RedisSettings
  max_jobs :: int
  job_timeout :: int
  keep_result :: int
  max_tries :: int

definition WorkerSettings :: "Settings \<Rightarrow> WorkerSettings" where
  "WorkerSettings settings =
     \<lparr> job_functions = [''process_langchain_request''],
       redis_settings = \<lparr> host = REDIS_HOST settings, port = REDIS_PORT settings \<rparr>,
       max_jobs = API_CONCURRENCY_LIMIT settings,
       job_timeout = 60,
       keep_result = 300,
       max_tries = 3 \<rparr>"

subsection \<open>The worker pool's attempt loop\<close>

text \<open>
  Modelled from the spec: what the worker pool does with one job (section 4.2), which is
  the queue library's worker and not part of the repository's sources; the repository
  only hands it \<open>max_tries\<close>. "On receiving a job, transitions status queued to running,
  records attempt increment, invokes the Task Executor; on success stores the result and
  transitions to succeeded; on executor failure, if attempt count < max-attempts,
  transitions back to queued and requeues, else transitions to failed and stores the
  error; on executor timeout, transitions to timed_out if attempts exhausted, otherwise
  requeues." Section 3 adds: "attempt count \<le> max-attempts; exceeding it forces terminal
  failed", which is the first test below.

  \<open>executor n\<close> is what the \<open>n\<close>-th invocation of the task executor does; the list in the
  second component records the invocations made, in order.
\<close>

datatype 'r status = Queued | Running | Done "'r terminal"

datatype 'r attempt = Success 'r | ExecutorError py_exception | ExecutorTimeout

record 'r job =
  status :: "'r status"
  attempt_count :: nat

definition create_job :: "'r job" where
  "create_job = \<lparr> status = Queued, attempt_count = 0 \<rparr>"

function run_job :: "nat \<Rightarrow> (nat \<Rightarrow> 'r attempt) \<Rightarrow> 'r job \<Rightarrow> nat list \<Rightarrow> 'r job \<times> nat list" where
  "run_job max_attempts executor job calls =
     (if max_attempts \<le> attempt_count job
      then (job\<lparr>status := Done (Failed (PyError ''ExecutionFailed'' ''max-attempts exceeded''))\<rparr>,
            calls)
      else
        (case executor (attempt_count job + 1) of
           Success r \<Rightarrow>
             (job\<lparr>status := Done (Succeeded r), attempt_count := attempt_count job + 1\<rparr>,
              calls @ [attempt_count job + 1])
         | ExecutorError e \<Rightarrow>
             if attempt_count job + 1 < max_attempts
             then run_job max_attempts executor
                    (job\<lparr>status := Queued, attempt_count := attempt_count job + 1\<rparr>)
                    (calls @ [attempt_count job + 1])
             else (job\<lparr>status := Done (Failed e), attempt_count := attempt_count job + 1\<rparr>,
                   calls @ [attempt_count job + 1])
         | ExecutorTimeout \<Rightarrow>
             if attempt_count job + 1 < max_attempts
             then run_job max_attempts executor
                    (job\<lparr>status := Queued, attempt_count := attempt_count job + 1\<rparr>)
                    (calls @ [attempt_count job + 1])
             else (job\<lparr>status := Done TimedOut, attempt_count := attempt_count job + 1\<rparr>,
                   calls @ [attempt_count job + 1])))"
  by pat_completeness auto
termination
  by (relation "measure (\<lambda>(max_attempts, executor, job, calls). max_attempts - attempt_count job)")
     auto

declare run_job.simps [simp del]

section \<open>The queue monitor (tools/monitor_queue.py)\<close>














subsection \<open>Notions for stating what the loop does\<close>




section \<open>Properties of the chat endpoint\<close>

lemma str_int_500: "str_int 500 = ''500''"
  by (simp add: str_int_def str_nat.simps digit_char_def)

lemma chat_enqueue_raises:
  "enqueue_job (model_dump_messages request) = Inl e
   \<Longrightarrow> chat enqueue_job job_result request = Inl (HTTPException 500 (str_exc e))"
  by (simp add: chat_def chat_body_def)

lemma chat_result_raises:
  "enqueue_job (model_dump_messages request) = Inr job \<Longrightarrow> job_result job 30 = Inl e
   \<Longrightarrow> chat enqueue_job job_result request = Inl (HTTPException 500 (str_exc e))"
  by (simp add: chat_def chat_body_def)

lemma chat_result_none:
  "enqueue_job (model_dump_messages request) = Inr job \<Longrightarrow> job_result job 30 = Inr None
   \<Longrightarrow> chat enqueue_job job_result request
       = Inl (HTTPException 500 (str_exc (HTTPException 500 ''Processing timed out'')))"
  by (simp add: chat_def chat_body_def)

lemma chat_result_some:
  "enqueue_job (model_dump_messages request) = Inr job \<Longrightarrow> job_result job 30 = Inr (Some r)
   \<Longrightarrow> chat enqueue_job job_result request = Inr [(''result'', r)]"
  by (simp add: chat_def chat_body_def)

lemma chat_body_raises:
  "chat_body enqueue_job job_result request = Inl e
   \<Longrightarrow> chat enqueue_job job_result request = Inl (HTTPException 500 (str_exc e))"
  by (simp add: chat_def)

lemma chat_raises_only_500:
  "chat enqueue_job job_result request = Inl x \<Longrightarrow> \<exists>msg. x = HTTPException 500 msg"
  by (auto simp: chat_def split: sum.splits)

lemma chat_returns_only_result:
  "chat enqueue_job job_result request = Inr response \<Longrightarrow> \<exists>r. response = [(''result'', r)]"
  by (auto simp: chat_def chat_body_def split: sum.splits option.splits)

lemma handle_wait_late:
  "\<not> finished_within timeout job \<Longrightarrow> handle_wait job timeout = Inl TimeoutError"
  by (cases "(job, timeout)" rule: handle_wait.cases) auto

text \<open>
  C1. When the enqueued job has reached no terminal state within 30 seconds, the handle's
  wait signals its timeout and \<open>chat\<close> answers with the error response of status 500
  instead of waiting on. The bound is 30 exactly: a job that succeeds with output \<open>r\<close> at
  time \<open>t\<close> has its output returned if and only if \<open>t \<le> 30\<close>.
\<close>

theorem chat_wait_bound:
  assumes "enqueue_job (model_dump_messages request) = Inr job"
  shows "(\<not> finished_within 30 job \<longrightarrow>
            chat enqueue_job handle_wait request = Inl (HTTPException 500 (str_exc TimeoutError)))
       \<and> (\<forall>t r. job = Some (t, Succeeded (Some r)) \<longrightarrow>
            (chat enqueue_job handle_wait request = Inr [(''result'', r)]) = (t \<le> 30))"
proof (intro conjI impI allI)
  assume "\<not> finished_within 30 job"
  then have "handle_wait job 30 = Inl TimeoutError"
    by (rule handle_wait_late)
  with assms
  show "chat enqueue_job handle_wait request = Inl (HTTPException 500 (str_exc TimeoutError))"
    by (rule chat_result_raises)
next
  fix t r
  assume j: "job = Some (t, Succeeded (Some r))"
  show "(chat enqueue_job handle_wait request = Inr [(''result'', r)]) = (t \<le> 30)"
  proof (cases "t \<le> 30")
    case True
    then have "handle_wait job 30 = Inr (Some r)"
      using j by simp
    with assms have "chat enqueue_job handle_wait request = Inr [(''result'', r)]"
      by (rule chat_result_some)
    with True show ?thesis by simp
  next
    case False
    then have "handle_wait job 30 = Inl TimeoutError"
      using j by simp
    with assms
    have "chat enqueue_job handle_wait request = Inl (HTTPException 500 (str_exc TimeoutError))"
      by (rule chat_result_raises)
    with False show ?thesis by simp
  qed
qed

theorem chat_wait_bound_witness:
  "chat (\<lambda>msgs. Inr (Some (31, Succeeded (Some ''late'')))) handle_wait
        \<lparr>messages = [\<lparr>role = ''user'', content = ''hello''\<rparr>]\<rparr>
     = Inl (HTTPException 500 [])
   \<and> chat (\<lambda>msgs. Inr (Some (30, Succeeded (Some ''world'')))) handle_wait
        \<lparr>messages = [\<lparr>role = ''user'', content = ''hello''\<rparr>]\<rparr>
     = Inr [(''result'', ''world'')]"
  using chat_wait_bound [of "\<lambda>msgs. Inr (Some (31, Succeeded (Some ''late'')))"
          "\<lparr>messages = [\<lparr>role = ''user'', content = ''hello''\<rparr>]\<rparr>"
          "Some (31, Succeeded (Some ''late''))"]
        chat_wait_bound [of "\<lambda>msgs. Inr (Some (30, Succeeded (Some ''world'')))"
          "\<lparr>messages = [\<lparr>role = ''user'', content = ''hello''\<rparr>]\<rparr>"
          "Some (30, Succeeded (Some ''world''))"]
  by simp




text \<open>
  C3. When the wait returns the executor's output \<open>r\<close>, \<open>chat\<close> returns the dictionary
  \<open>{"result": r}\<close>; with the handle of section 4.4 that is a job that succeeded with \<open>r\<close>
  within the wait. Whenever \<open>chat\<close> does not return, what it raises carries a message.
\<close>

theorem chat_success_response:
  assumes "enqueue_job (model_dump_messages request) = Inr job"
  shows "(job_result job 30 = Inr (Some r) \<longrightarrow>
            chat enqueue_job job_result request = Inr [(''result'', r)])
       \<and> (\<forall>t. job = Some (t, Succeeded (Some r)) \<and> t \<le> 30 \<longrightarrow>
            chat enqueue_job handle_wait request = Inr [(''result'', r)])
       \<and> (\<forall>x. chat enqueue_job job_result request = Inl x \<longrightarrow>
            (\<exists>msg. x = HTTPException 500 msg))"
proof (intro conjI impI allI)
  assume "job_result job 30 = Inr (Some r)"
  with assms show "chat enqueue_job job_result request = Inr [(''result'', r)]"
    by (rule chat_result_some)
next
  fix t
  assume "job = Some (t, Succeeded (Some r)) \<and> t \<le> 30"
  then have "handle_wait job 30 = Inr (Some r)"
    by auto
  with assms show "chat enqueue_job handle_wait request = Inr [(''result'', r)]"
    by (rule chat_result_some)
next
  fix x
  assume "chat enqueue_job job_result request = Inl x"
  then show "\<exists>msg. x = HTTPException 500 msg"
    by (rule chat_raises_only_500)
qed

theorem chat_success_response_witness:
  "chat (\<lambda>msgs. Inr (Some (2, Succeeded (Some ''world'')))) handle_wait
        \<lparr>messages = [\<lparr>role = ''user'', content = ''hello''\<rparr>]\<rparr>
     = Inr [(''result'', ''world'')]"
  using chat_success_response [of "\<lambda>msgs. Inr (Some (2, Succeeded (Some ''world'')))"
          "\<lparr>messages = [\<lparr>role = ''user'', content = ''hello''\<rparr>]\<rparr>"
          "Some (2, Succeeded (Some ''world''))" handle_wait "''world''"]
  by simp

text \<open>
  C9. Every exception raised inside the \<^verbatim>\<open>try\<close> block is caught by the generic branch
  and wrapped again: the caller receives status 500 with the rendering of the caught
  exception as detail. That includes the handler's own \<open>HTTPException\<close> for a result
  that is \<open>None\<close>, whose detail arrives as \<open>500: Processing timed out\<close>.
\<close>

theorem chat_rewraps_every_exception:
  "(chat_body enqueue_job job_result request = Inl e \<longrightarrow>
      chat enqueue_job job_result request = Inl (HTTPException 500 (str_exc e)))
   \<and> (enqueue_job (model_dump_messages request) = Inr job \<and> job_result job 30 = Inr None \<longrightarrow>
      chat_body enqueue_job job_result request = Inl (HTTPException 500 ''Processing timed out'')
      \<and> chat enqueue_job job_result request = Inl (HTTPException 500 ''500: Processing timed out''))"
proof (intro conjI impI)
  assume "chat_body enqueue_job job_result request = Inl e"
  then show "chat enqueue_job job_result request = Inl (HTTPException 500 (str_exc e))"
    by (rule chat_body_raises)
next
  assume a: "enqueue_job (model_dump_messages request) = Inr job \<and> job_result job 30 = Inr None"
  then show "chat_body enqueue_job job_result request
               = Inl (HTTPException 500 ''Processing timed out'')"
    by (simp add: chat_body_def)
next
  assume a: "enqueue_job (model_dump_messages request) = Inr job \<and> job_result job 30 = Inr None"
  then have "chat enqueue_job job_result request
               = Inl (HTTPException 500 (str_exc (HTTPException 500 ''Processing timed out'')))"
    by (simp add: chat_result_none)
  then show "chat enqueue_job job_result request
               = Inl (HTTPException 500 ''500: Processing timed out'')"
    by (simp add: str_int_500)
qed

theorem chat_rewraps_every_exception_witness:
  "chat (\<lambda>msgs. Inr (Some (3, Succeeded None))) handle_wait
        \<lparr>messages = [\<lparr>role = ''user'', content = ''hello''\<rparr>]\<rparr>
     = (Inl (HTTPException 500 ''500: Processing timed out'') :: (string \<times> string) list outcome)
   \<and> chat (\<lambda>msgs. Inl (PyError ''ConnectionError'' ''redis is down'')) handle_wait
        \<lparr>messages = [\<lparr>role = ''user'', content = ''hello''\<rparr>]\<rparr>
     = (Inl (HTTPException 500 ''redis is down'') :: (string \<times> string) list outcome)"
  using chat_rewraps_every_exception [of "\<lambda>msgs. Inr (Some (3, Succeeded None))" handle_wait
          "\<lparr>messages = [\<lparr>role = ''user'', content = ''hello''\<rparr>]\<rparr>"
          "HTTPException 500 ''Processing timed out''"
          "Some (3, Succeeded (None :: string option))"]
        chat_rewraps_every_exception
          [of "\<lambda>msgs. Inl (PyError ''ConnectionError'' ''redis is down'')"
              "handle_wait :: string option job_view \<Rightarrow> rat \<Rightarrow> string option outcome"
              "\<lparr>messages = [\<lparr>role = ''user'', content = ''hello''\<rparr>]\<rparr>"
              "PyError ''ConnectionError'' ''redis is down''"]
  by (simp add: chat_body_def str_int_500)

section \<open>Properties of the configuration\<close>













section \<open>Properties of the worker configuration\<close>






section \<open>Properties of the job function\<close>

text \<open>
  C10. When the invocation of the language model raises \<open>e\<close>,
  \<open>process_langchain_request\<close> raises \<open>e\<close> itself; it returns normally only a content
  that the invocation returned.
\<close>

theorem process_langchain_request_reraises:
  "(ChatGoogleGenerativeAI (llm_kwargs settings) = Inr llm
      \<and> convert_to_messages msgs = Inr converted \<and> ainvoke llm converted = Inl e \<longrightarrow>
      process_langchain_request settings ChatGoogleGenerativeAI convert_to_messages ainvoke msgs
        = Inl e)
   \<and> (process_langchain_request settings ChatGoogleGenerativeAI convert_to_messages ainvoke msgs
        = Inr c \<longrightarrow>
      (\<exists>llm' converted'. ChatGoogleGenerativeAI (llm_kwargs settings) = Inr llm'
          \<and> convert_to_messages msgs = Inr converted' \<and> ainvoke llm' converted' = Inr c))"
  by (auto simp: process_langchain_request_def split: sum.splits)

theorem process_langchain_request_reraises_witness:
  "process_langchain_request
     \<lparr> GOOGLE_API_KEY = ''secret'', MODEL_NAME = ''gemini-2.0-flash'',
       OUTPUT_FOLDER = ''output_1'', MAX_CONCURRENCY = 10, MAX_OUTPUT_TOKENS = 8192,
       API_BASE_URL = Some ''https://api-dev.maverickcosts.com'',
       FASTAPI_KEY = ''your-api-key-here'', MAX_TASK_RUNTIME = 3600, REDIS_HOST = ''redis'',
       REDIS_PORT = 6379, API_CONCURRENCY_LIMIT = 10 \<rparr>
     (\<lambda>kwargs. Inr (model kwargs)) (\<lambda>msgs. Inr msgs)
     (\<lambda>llm msgs. Inl (PyError ''ResourceExhausted'' ''quota exceeded''))
     [[(''role'', ''user''), (''content'', ''hello'')]]
   = (Inl (PyError ''ResourceExhausted'' ''quota exceeded'') :: string outcome)"
  using process_langchain_request_reraises
          [where settings = "\<lparr> GOOGLE_API_KEY = ''secret'', MODEL_NAME = ''gemini-2.0-flash'',
                   OUTPUT_FOLDER = ''output_1'', MAX_CONCURRENCY = 10, MAX_OUTPUT_TOKENS = 8192,
                   API_BASE_URL = Some ''https://api-dev.maverickcosts.com'',
                   FASTAPI_KEY = ''your-api-key-here'', MAX_TASK_RUNTIME = 3600,
                   REDIS_HOST = ''redis'', REDIS_PORT = 6379, API_CONCURRENCY_LIMIT = 10 \<rparr>"
             and ChatGoogleGenerativeAI = "\<lambda>kwargs. Inr (model kwargs)"
             and llm = "''gemini-2.0-flash''"
             and convert_to_messages = "\<lambda>msgs. Inr msgs"
             and msgs = "[[(''role'', ''user''), (''content'', ''hello'')]]"
             and converted = "[[(''role'', ''user''), (''content'', ''hello'')]]"
             and ainvoke = "\<lambda>llm msgs. Inl (PyError ''ResourceExhausted'' ''quota exceeded'')
                              :: string outcome"
             and e = "PyError ''ResourceExhausted'' ''quota exceeded''"
             and c = "''unused''"]
  by (simp add: llm_kwargs_def)

section \<open>Properties of the worker pool's attempt loop\<close>

lemma run_job_attempts_le:
  "attempt_count job \<le> m \<Longrightarrow> attempt_count (fst (run_job m ex job calls)) \<le> m"
proof (induction m ex job calls rule: run_job.induct)
  case (1 m ex job calls)
  show ?case
  proof (cases "m \<le> attempt_count job")
    case True
    with "1.prems" show ?thesis
      by (simp add: run_job.simps [of m ex job calls])
  next
    case False
    then show ?thesis
      using "1.IH"
      by (cases "ex (attempt_count job + 1)")
         (auto simp: run_job.simps [of m ex job calls])
  qed
qed

lemma run_job_exhausted:
  "m \<le> attempt_count job \<Longrightarrow>
   run_job m ex job calls
     = (job\<lparr>status := Done (Failed (PyError ''ExecutionFailed'' ''max-attempts exceeded''))\<rparr>,
        calls)"
  by (simp add: run_job.simps [of m ex job calls])

lemma run_job_always_failing:
  "\<forall>n. \<exists>e. ex n = ExecutorError e \<Longrightarrow> attempt_count job < m \<Longrightarrow>
   \<exists>e. ex m = ExecutorError e
     \<and> run_job m ex job calls
         = (job\<lparr>status := Done (Failed e), attempt_count := m\<rparr>,
            calls @ [attempt_count job + 1 ..< m + 1])"
proof (induction m ex job calls rule: run_job.induct)
  case (1 m ex job calls)
  from "1.prems"(1) obtain e where e: "ex (attempt_count job + 1) = ExecutorError e"
    by blast
  show ?case
  proof (cases "attempt_count job + 1 < m")
    case True
    let ?job = "job\<lparr>status := Queued, attempt_count := attempt_count job + 1\<rparr>"
    from "1.prems"(2) have nle: "\<not> m \<le> attempt_count job" by simp
    have "\<exists>e'. ex m = ExecutorError e'
            \<and> run_job m ex ?job (calls @ [attempt_count job + 1])
                = (?job\<lparr>status := Done (Failed e'), attempt_count := m\<rparr>,
                   (calls @ [attempt_count job + 1]) @ [attempt_count ?job + 1 ..< m + 1])"
      using "1.IH"(1) [OF nle e True "1.prems"(1)] True by simp
    then obtain e' where e': "ex m = ExecutorError e'"
      and r: "run_job m ex ?job (calls @ [attempt_count job + 1])
                = (?job\<lparr>status := Done (Failed e'), attempt_count := m\<rparr>,
                   (calls @ [attempt_count job + 1]) @ [attempt_count ?job + 1 ..< m + 1])"
      by blast
    have u: "[attempt_count job + 1 ..< m + 1]
               = (attempt_count job + 1) # [attempt_count ?job + 1 ..< m + 1]"
      using True by (simp add: upt_conv_Cons)
    have "run_job m ex job calls = run_job m ex ?job (calls @ [attempt_count job + 1])"
      using nle e True by (simp add: run_job.simps [of m ex job calls])
    with r u e' show ?thesis
      by simp
  next
    case False
    with "1.prems"(2) have m: "m = attempt_count job + 1" by simp
    from "1.prems"(2) have nle: "\<not> m \<le> attempt_count job" by simp
    have "run_job m ex job calls
            = (job\<lparr>status := Done (Failed e), attempt_count := attempt_count job + 1\<rparr>,
               calls @ [attempt_count job + 1])"
      using nle e False by (simp add: run_job.simps [of m ex job calls])
    with e m show ?thesis
      by simp
  qed
qed

lemma upt_1_4: "[Suc 0 ..< 4] = [1, 2, 3]"
  by (simp add: upt_conv_Cons)

text \<open>
  C4, on the attempt loop of section 4.2. With the \<open>max_tries\<close> of \<open>WorkerSettings\<close>, a
  job whose executor fails at every invocation ends in the terminal state failed, carrying
  the error of the third invocation, after the invocations 1, 2 and 3 and no other. For
  every executor and every job, the attempt count stays within max-attempts; a job that
  has already used them up is failed without another invocation.
\<close>

theorem worker_retry_limit:
  fixes executor ex :: "nat \<Rightarrow> 'r attempt"
  assumes "\<forall>n. \<exists>e. executor n = ExecutorError e"
  shows "(\<exists>e. executor 3 = ExecutorError e
            \<and> run_job (nat (max_tries (WorkerSettings settings))) executor create_job []
                = (\<lparr> status = Done (Failed e), attempt_count = 3 \<rparr>, [1, 2, 3]))
       \<and> (attempt_count job \<le> m \<longrightarrow> attempt_count (fst (run_job m ex job calls)) \<le> m)
       \<and> (m \<le> attempt_count job \<longrightarrow>
            (\<exists>e. status (fst (run_job m ex job calls)) = Done (Failed e))
            \<and> attempt_count (fst (run_job m ex job calls)) = attempt_count job
            \<and> snd (run_job m ex job calls) = calls)"
proof (intro conjI impI)
  have m: "nat (max_tries (WorkerSettings settings)) = 3"
    by (simp add: WorkerSettings_def)
  have "attempt_count (create_job :: 'r job) < 3"
    by (simp add: create_job_def)
  from run_job_always_failing [OF assms this, of "[]"]
  show "\<exists>e. executor 3 = ExecutorError e
            \<and> run_job (nat (max_tries (WorkerSettings settings))) executor create_job []
                = (\<lparr> status = Done (Failed e), attempt_count = 3 \<rparr>, [1, 2, 3])"
    unfolding m by (simp add: create_job_def upt_1_4)
next
  assume "attempt_count job \<le> m"
  then show "attempt_count (fst (run_job m ex job calls)) \<le> m"
    by (rule run_job_attempts_le)
next
  assume "m \<le> attempt_count job"
  then show "\<exists>e. status (fst (run_job m ex job calls)) = Done (Failed e)"
    by (simp add: run_job_exhausted)
next
  assume "m \<le> attempt_count job"
  then show "attempt_count (fst (run_job m ex job calls)) = attempt_count job"
    by (simp add: run_job_exhausted)
next
  assume "m \<le> attempt_count job"
  then show "snd (run_job m ex job calls) = calls"
    by (simp add: run_job_exhausted)
qed

theorem worker_retry_limit_witness:
  "run_job
     (nat (max_tries (WorkerSettings
        \<lparr> GOOGLE_API_KEY = ''secret'', MODEL_NAME = ''gemini-2.0-flash'',
          OUTPUT_FOLDER = ''output_1'', MAX_CONCURRENCY = 10, MAX_OUTPUT_TOKENS = 8192,
          API_BASE_URL = Some ''https://api-dev.maverickcosts.com'',
          FASTAPI_KEY = ''your-api-key-here'', MAX_TASK_RUNTIME = 3600, REDIS_HOST = ''redis'',
          REDIS_PORT = 6379, API_CONCURRENCY_LIMIT = 10 \<rparr>)))
     (\<lambda>n. ExecutorError (PyError ''RuntimeError'' ''model unavailable'')) create_job []
   = ((\<lparr> status = Done (Failed (PyError ''RuntimeError'' ''model unavailable'')),
         attempt_count = 3 \<rparr> :: string job), [1, 2, 3])
   \<and> snd (run_job 3 (\<lambda>n. ExecutorError (PyError ''RuntimeError'' ''model unavailable''))
            (\<lparr> status = Queued, attempt_count = 3 \<rparr> :: string job) []) = []"
  using worker_retry_limit
          [where executor = "\<lambda>n. ExecutorError (PyError ''RuntimeError'' ''model unavailable'')
                               :: string attempt"
             and ex = "\<lambda>n. ExecutorError (PyError ''RuntimeError'' ''model unavailable'')"
             and settings = "\<lparr> GOOGLE_API_KEY = ''secret'', MODEL_NAME = ''gemini-2.0-flash'',
                   OUTPUT_FOLDER = ''output_1'', MAX_CONCURRENCY = 10, MAX_OUTPUT_TOKENS = 8192,
                   API_BASE_URL = Some ''https://api-dev.maverickcosts.com'',
                   FASTAPI_KEY = ''your-api-key-here'', MAX_TASK_RUNTIME = 3600,
                   REDIS_HOST = ''redis'', REDIS_PORT = 6379, API_CONCURRENCY_LIMIT = 10 \<rparr>"
             and job = "\<lparr> status = Queued, attempt_count = 3 \<rparr>"
             and m = 3 and calls = "[]"]
  by simp

section \<open>Properties of the queue monitor\<close>




















end
